theory Spec2Isabelle
  imports Complex_Main "HOL-Library.Product_Lexorder"
begin

section \<open>Exceptions\<close>

text \<open>
  Every exception class the modelled code can raise: the classes of
  \<^verbatim>\<open>inventory/services/allocation.py\<close> and \<^verbatim>\<open>undo_redo.py\<close>, the Python
  built-ins, and Django's \<^verbatim>\<open>Model.DoesNotExist\<close>. The string is the message
  (or, for AttributeError and TypeError, the offending name).
\<close>

datatype error =
    AllocationError string
  | OrderNotFoundError string
  | InsufficientStockError string
  | UndoRedoError string
  | ValueError string
  | IndexError string
  | AttributeError string
  | TypeError string
  | ZeroDivisionError
  | DoesNotExist

section \<open>ManualStack (\<^verbatim>\<open>inventory/services/structures.py\<close>)\<close>

text \<open>
  The array-backed stack: \<^verbatim>\<open>_data\<close> is a Python list of optional values,
  \<^verbatim>\<open>_top\<close> the index of the next free slot. A list access out of range raises
  IndexError in Python, so \<open>push\<close> and \<open>pop\<close> return a sum.
\<close>

record 'a ManualStack =
  s_data :: "'a option list"
  s_top :: nat

definition ManualStack_init :: "int \<Rightarrow> 'a ManualStack" where
  "ManualStack_init capacity =
     (let capacity = (if capacity \<le> 0 then 16 else capacity)
      in \<lparr>s_data = replicate (nat capacity) None, s_top = 0\<rparr>)"

definition stack_grow :: "'a ManualStack \<Rightarrow> 'a ManualStack" where
  "stack_grow s =
     (let old = s_data s;
          new_cap = max (2 * length old) 16
      in s\<lparr>s_data := old @ replicate (new_cap - length old) None\<rparr>)"

definition stack_push :: "'a \<Rightarrow> 'a ManualStack \<Rightarrow> error + 'a ManualStack" where
  "stack_push v s =
     (let s = (if s_top s = length (s_data s) then stack_grow s else s)
      in if s_top s < length (s_data s)
         then Inr (s\<lparr>s_data := (s_data s)[s_top s := Some v], s_top := s_top s + 1\<rparr>)
         else Inl (IndexError ''list assignment index out of range''))"

definition stack_pop :: "'a ManualStack \<Rightarrow> error + ('a option \<times> 'a ManualStack)" where
  "stack_pop s =
     (if s_top s = 0 then Inl (IndexError ''pop from empty stack'')
      else let t = s_top s - 1
           in if t < length (s_data s)
              then Inr (s_data s ! t, s\<lparr>s_data := (s_data s)[t := None], s_top := t\<rparr>)
              else Inl (IndexError ''list index out of range''))"

definition stack_is_empty :: "'a ManualStack \<Rightarrow> bool" where
  "stack_is_empty s = (s_top s = 0)"

text \<open>\<^verbatim>\<open>for row in reversed(eligible): stack.push(row["id"])\<close>, given the reversed list.\<close>

fun push_all :: "'a list \<Rightarrow> 'a ManualStack \<Rightarrow> error + 'a ManualStack" where
  "push_all [] s = Inr s"
| "push_all (v # vs) s =
     (case stack_push v s of Inl e \<Rightarrow> Inl e | Inr s' \<Rightarrow> push_all vs s')"

text \<open>\<^verbatim>\<open>while not stack.is_empty(): out.append(stack.pop())\<close>: the bare traversal.\<close>

function pop_all :: "'a ManualStack \<Rightarrow> error + 'a option list" where
  "pop_all s =
     (if stack_is_empty s then Inr []
      else (case stack_pop s of
              Inl e \<Rightarrow> Inl e
            | Inr (v, s') \<Rightarrow> (case pop_all s' of Inl e \<Rightarrow> Inl e | Inr vs \<Rightarrow> Inr (v # vs))))"
  by pat_completeness auto

termination
  by (relation "measure s_top")
     (auto simp: stack_pop_def stack_is_empty_def Let_def split: if_splits)

declare pop_all.simps [simp del]

text \<open>
  The abstraction: a stack holds the list \<open>xs\<close>, head on top, when the slots below
  \<^verbatim>\<open>_top\<close> are the elements of \<open>xs\<close> bottom-up.
\<close>

definition stack_abs :: "'a ManualStack \<Rightarrow> 'a list \<Rightarrow> bool" where
  "stack_abs s xs \<longleftrightarrow>
     s_top s = length xs \<and> length xs \<le> length (s_data s) \<and>
     take (length xs) (s_data s) = map Some (rev xs)"

section \<open>ManualQueue (\<^verbatim>\<open>inventory/services/structures.py\<close>)\<close>

text \<open>
  The circular-buffer queue: \<^verbatim>\<open>_head\<close> is the slot of the oldest element,
  \<^verbatim>\<open>_tail\<close> the next free slot, \<^verbatim>\<open>_size\<close> the number of elements held.
\<close>

record 'a ManualQueue =
  q_data :: "'a option list"
  q_head :: nat
  q_tail :: nat
  q_size :: nat

definition ManualQueue_init :: "int \<Rightarrow> 'a ManualQueue" where
  "ManualQueue_init capacity =
     (let capacity = (if capacity \<le> 0 then 16 else capacity)
      in \<lparr>q_data = replicate (nat capacity) None, q_head = 0, q_tail = 0, q_size = 0\<rparr>)"

text \<open>
  \<^verbatim>\<open>_grow\<close> copies the elements in FIFO order into a fresh array. The copy reads
  \<^verbatim>\<open>old[idx]\<close> and advances \<^verbatim>\<open>idx\<close> modulo \<^verbatim>\<open>len(old)\<close>.
\<close>

definition queue_grow :: "'a ManualQueue \<Rightarrow> error + 'a ManualQueue" where
  "queue_grow q =
     (let old = q_data q;
          new_cap = max (2 * length old) 16
      in if q_size q = 0
         then Inr (q\<lparr>q_data := replicate new_cap None, q_head := 0, q_tail := 0\<rparr>)
         else if q_head q \<ge> length old then Inl (IndexError ''list index out of range'')
         else if q_size q > new_cap then Inl (IndexError ''list assignment index out of range'')
         else Inr (q\<lparr>q_data := map (\<lambda>i. old ! ((q_head q + i) mod length old)) [0..<q_size q]
                               @ replicate (new_cap - q_size q) None,
                     q_head := 0, q_tail := q_size q\<rparr>))"

definition enqueue :: "'a \<Rightarrow> 'a ManualQueue \<Rightarrow> error + 'a ManualQueue" where
  "enqueue v q =
     (case (if q_size q = length (q_data q) then queue_grow q else Inr q) of
        Inl e \<Rightarrow> Inl e
      | Inr q \<Rightarrow>
          if q_tail q < length (q_data q)
          then Inr (q\<lparr>q_data := (q_data q)[q_tail q := Some v],
                      q_tail := (q_tail q + 1) mod length (q_data q),
                      q_size := q_size q + 1\<rparr>)
          else Inl (IndexError ''list assignment index out of range''))"

definition dequeue :: "'a ManualQueue \<Rightarrow> error + ('a option \<times> 'a ManualQueue)" where
  "dequeue q =
     (if q_size q = 0 then Inl (IndexError ''dequeue from empty queue'')
      else if q_head q < length (q_data q)
      then Inr (q_data q ! q_head q,
                q\<lparr>q_data := (q_data q)[q_head q := None],
                  q_head := (q_head q + 1) mod length (q_data q),
                  q_size := q_size q - 1\<rparr>)
      else Inl (IndexError ''list index out of range''))"

definition queue_is_empty :: "'a ManualQueue \<Rightarrow> bool" where
  "queue_is_empty q = (q_size q = 0)"

text \<open>\<^verbatim>\<open>for oi in order_items: task_q.enqueue(oi)\<close>\<close>

fun enqueue_all :: "'a list \<Rightarrow> 'a ManualQueue \<Rightarrow> error + 'a ManualQueue" where
  "enqueue_all [] q = Inr q"
| "enqueue_all (v # vs) q =
     (case enqueue v q of Inl e \<Rightarrow> Inl e | Inr q' \<Rightarrow> enqueue_all vs q')"

text \<open>
  The abstraction used below: the queue holds \<open>ys\<close>, oldest first, in consecutive
  slots starting at \<^verbatim>\<open>_head\<close> (the buffer has not wrapped around).
\<close>

definition queue_abs :: "'a ManualQueue \<Rightarrow> 'a list \<Rightarrow> bool" where
  "queue_abs q ys \<longleftrightarrow>
     q_size q = length ys \<and> q_head q + length ys \<le> length (q_data q) \<and>
     0 < length (q_data q) \<and>
     q_tail q = (q_head q + length ys) mod length (q_data q) \<and>
     take (length ys) (drop (q_head q) (q_data q)) = map Some ys"

section \<open>Data model (\<^verbatim>\<open>inventory/models.py\<close>)\<close>

text \<open>
  Quantities are \<^verbatim>\<open>DecimalField(max_digits=12, decimal_places=3)\<close>: exact decimal
  numbers, modelled as rationals (the code only adds, subtracts, compares and takes
  minima, all exact on \<^verbatim>\<open>Decimal\<close>). Dates are day numbers. Timestamps
  (\<^verbatim>\<open>created_at\<close>, \<^verbatim>\<open>timestamp\<close>) are left out: no modelled query reads them.
  The database-level \<^verbatim>\<open>CheckConstraint\<close>s are not modelled: non-negativity of
  \<^verbatim>\<open>available_qty\<close> is proved from the code instead of being assumed of the store.
\<close>

datatype batch_status = Batch_AVAILABLE | Batch_RESERVED | Batch_HOLD | Batch_EXPIRED

record Batch =
  b_id :: nat
  b_item :: nat
  lot_no :: string
  received_qty :: rat
  available_qty :: rat
  expiry_date :: "int option"
  b_status :: batch_status

datatype order_status =
  Order_NEW | Order_ALLOCATED | Order_PICKED | Order_SHIPPED | Order_DELIVERED | Order_CANCELLED

record Order =
  o_id :: nat
  order_no :: string
  customer_name :: string
  o_status :: order_status

record OrderItem =
  oi_id :: nat
  oi_order :: nat
  oi_item :: nat
  qty_requested :: rat
  qty_allocated :: rat

record Allocation =
  a_id :: nat
  a_order_item :: nat
  a_batch :: nat
  a_qty_allocated :: rat

datatype json = JNull | JNum rat | JStr string | JArr "json list" | JObj "(string \<times> json) list"

datatype txn_type =
  TYPE_RECEIPT | TYPE_RESERVE | TYPE_RELEASE | TYPE_DEALLOCATE | TYPE_SHIP | TYPE_ADJUST

text \<open>
  A TransactionLog instance: \<open>t_pk\<close> is \<^verbatim>\<open>self.pk\<close>, \<open>None\<close> until the row has
  been inserted.
\<close>

record TransactionLog =
  t_pk :: "nat option"
  t_user :: "nat option"
  t_type :: txn_type
  t_qty :: rat
  t_item :: "nat option"
  t_batch :: "nat option"
  t_order :: "nat option"
  t_shipment :: "nat option"
  t_meta :: json

datatype level = LEVEL_INFO | LEVEL_WARNING | LEVEL_ERROR

record Notification =
  n_id :: nat
  n_user :: "nat option"
  n_message :: string
  n_level :: level
  is_read :: bool

text \<open>
  The rows of \<^verbatim>\<open>UndoStack\<close> and \<^verbatim>\<open>RedoStack\<close>: the model classes declare the
  fields \<^verbatim>\<open>op_name\<close>, \<^verbatim>\<open>metadata\<close> and \<^verbatim>\<open>created_at\<close>, and nothing else.
\<close>

record StackRow =
  u_pk :: "nat option"
  op_name :: string
  metadata :: json

text \<open>The database: one list of rows per table, in insertion order.\<close>

record db =
  batches :: "Batch list"
  orders :: "Order list"
  order_items :: "OrderItem list"
  allocations :: "Allocation list"
  transaction_logs :: "TransactionLog list"
  notifications :: "Notification list"
  undo_stack :: "StackRow list"
  redo_stack :: "StackRow list"

text \<open>Auto-increment primary keys: one more than the largest key in the table.\<close>

definition next_pk :: "nat list \<Rightarrow> nat" where
  "next_pk ids = Suc (fold max ids 0)"

text \<open>\<^verbatim>\<open>Model.objects.get(pk=...)\<close>: the row, or \<^verbatim>\<open>DoesNotExist\<close>.\<close>

definition Batch_get :: "nat \<Rightarrow> db \<Rightarrow> Batch option" where
  "Batch_get pk d = find (\<lambda>b. b_id b = pk) (batches d)"

definition Order_get :: "nat \<Rightarrow> db \<Rightarrow> Order option" where
  "Order_get pk d = find (\<lambda>r. o_id r = pk) (orders d)"

definition OrderItem_get :: "nat \<Rightarrow> db \<Rightarrow> OrderItem option" where
  "OrderItem_get pk d = find (\<lambda>oi. oi_id oi = pk) (order_items d)"

text \<open>
  \<^verbatim>\<open>Batch.objects.filter(pk=pk).update(available_qty=F("available_qty") - q)\<close>,
  and the same for \<^verbatim>\<open>OrderItem.qty_allocated\<close>.
\<close>

definition Batch_update_available :: "nat \<Rightarrow> (rat \<Rightarrow> rat) \<Rightarrow> db \<Rightarrow> db" where
  "Batch_update_available pk f d =
     d\<lparr>batches := map (\<lambda>b. if b_id b = pk then b\<lparr>available_qty := f (available_qty b)\<rparr> else b)
                       (batches d)\<rparr>"

definition OrderItem_update_allocated :: "nat \<Rightarrow> (rat \<Rightarrow> rat) \<Rightarrow> db \<Rightarrow> db" where
  "OrderItem_update_allocated pk f d =
     d\<lparr>order_items := map (\<lambda>oi. if oi_id oi = pk then oi\<lparr>qty_allocated := f (qty_allocated oi)\<rparr>
                                 else oi) (order_items d)\<rparr>"

text \<open>\<^verbatim>\<open>Allocation.objects.create(order_item=..., batch=..., qty_allocated=...)\<close>\<close>

definition Allocation_create :: "nat \<Rightarrow> nat \<Rightarrow> rat \<Rightarrow> db \<Rightarrow> Allocation \<times> db" where
  "Allocation_create order_item batch q d =
     (let a = \<lparr>a_id = next_pk (map a_id (allocations d)), a_order_item = order_item,
                a_batch = batch, a_qty_allocated = q\<rparr>
      in (a, d\<lparr>allocations := allocations d @ [a]\<rparr>))"

definition Notification_create :: "nat option \<Rightarrow> string \<Rightarrow> level \<Rightarrow> db \<Rightarrow> db" where
  "Notification_create user message lvl d =
     d\<lparr>notifications := notifications d @
          [\<lparr>n_id = next_pk (map n_id (notifications d)), n_user = user,
            n_message = message, n_level = lvl, is_read = False\<rparr>]\<rparr>"

section \<open>TransactionLog.save\<close>

text \<open>
  \<^verbatim>\<open>if self.pk: raise ValueError(...)\<close> tests the truthiness of the key: \<^verbatim>\<open>None\<close>
  and \<^verbatim>\<open>0\<close> are false. Otherwise Django's \<^verbatim>\<open>Model.save\<close> runs: with no key it
  inserts the row under a fresh key; with a key it updates the row of that key, or inserts
  it when there is none.
\<close>

definition truthy_pk :: "nat option \<Rightarrow> bool" where
  "truthy_pk pk = (case pk of None \<Rightarrow> False | Some k \<Rightarrow> k \<noteq> 0)"

definition Model_save_log :: "TransactionLog \<Rightarrow> db \<Rightarrow> TransactionLog \<times> db" where
  "Model_save_log self d =
     (case t_pk self of
        None \<Rightarrow>
          (let r = self\<lparr>t_pk := Some (next_pk (map (\<lambda>r. case t_pk r of None \<Rightarrow> 0 | Some k \<Rightarrow> k)
                                                  (transaction_logs d)))\<rparr>
           in (r, d\<lparr>transaction_logs := transaction_logs d @ [r]\<rparr>))
      | Some k \<Rightarrow>
          if \<exists>r \<in> set (transaction_logs d). t_pk r = Some k
          then (self, d\<lparr>transaction_logs :=
                          map (\<lambda>r. if t_pk r = Some k then self else r) (transaction_logs d)\<rparr>)
          else (self, d\<lparr>transaction_logs := transaction_logs d @ [self]\<rparr>))"

definition TransactionLog_save :: "TransactionLog \<Rightarrow> db \<Rightarrow> (error + TransactionLog) \<times> db" where
  "TransactionLog_save self d =
     (if truthy_pk (t_pk self)
      then (Inl (ValueError ''TransactionLog records are immutable and cannot be updated''), d)
      else (case Model_save_log self d of (r, d') \<Rightarrow> (Inr r, d')))"

text \<open>\<^verbatim>\<open>TransactionLog.objects.create(**fields)\<close>: a new instance, then \<^verbatim>\<open>save()\<close>.\<close>

definition TransactionLog_create :: "TransactionLog \<Rightarrow> db \<Rightarrow> (error + TransactionLog) \<times> db" where
  "TransactionLog_create row d = TransactionLog_save (row\<lparr>t_pk := None\<rparr>) d"

section \<open>Transactions\<close>

text \<open>
  \<^verbatim>\<open>with transaction.atomic(): body\<close>. When the body raises, every write it made is
  rolled back and the exception propagates; otherwise its writes are kept.
\<close>

definition atomic :: "(db \<Rightarrow> error + 'a \<times> db) \<Rightarrow> db \<Rightarrow> (error + 'a) \<times> db" where
  "atomic body d = (case body d of Inl e \<Rightarrow> (Inl e, d) | Inr (r, d') \<Rightarrow> (Inr r, d'))"

section \<open>Batch.reserve\<close>

definition reserve :: "Batch \<Rightarrow> rat \<Rightarrow> db \<Rightarrow> (error + rat) \<times> db" where
  "reserve self qty d =
     (if qty \<le> 0 then (Inl (ValueError ''Reserve quantity must be > 0''), d)
      else atomic (\<lambda>d.
        case Batch_get (b_id self) d of
          None \<Rightarrow> Inl DoesNotExist
        | Some locked \<Rightarrow>
            if b_status locked \<noteq> Batch_AVAILABLE
            then Inl (ValueError ''Batch is not in AVAILABLE status'')
            else if available_qty locked < qty
            then Inl (ValueError ''Insufficient quantity in batch'')
            else (let d' = Batch_update_available (b_id locked) (\<lambda>a. a - qty) d
                  in case Batch_get (b_id locked) d' of
                       None \<Rightarrow> Inl DoesNotExist
                     | Some refreshed \<Rightarrow> Inr (available_qty refreshed, d'))) d)"

section \<open>Database backend (\<^verbatim>\<open>wms_project/settings.py\<close>)\<close>

text \<open>
  \<^verbatim>\<open>DATABASES\<close> is SQLite unless the environment variable \<^verbatim>\<open>DATABASE_URL\<close> is
  set; then the URL scheme selects the engine, unknown schemes falling back to PostgreSQL.
\<close>

datatype backend = sqlite3 | postgresql | mysql

definition database_config_from_url :: "string \<Rightarrow> backend" where
  "database_config_from_url scheme =
     (if scheme \<in> {''postgres'', ''postgresql'', ''postgresql+psycopg2''} then postgresql
      else if scheme \<in> {''mysql''} then mysql
      else if scheme \<in> {''sqlite'', ''sqlite3''} then sqlite3
      else postgresql)"

definition DATABASES :: "string option \<Rightarrow> backend" where
  "DATABASES database_url_scheme =
     (case database_url_scheme of
        None \<Rightarrow> sqlite3
      | Some scheme \<Rightarrow> database_config_from_url scheme)"

text \<open>
  \<^verbatim>\<open>.order_by("expiry_date", "pk")\<close> becomes \<^verbatim>\<open>ORDER BY expiry_date ASC, id ASC\<close>
  with no \<^verbatim>\<open>NULLS FIRST\<close>/\<^verbatim>\<open>NULLS LAST\<close> clause, so the place of rows without an
  expiry date is the engine's: SQLite and MySQL order NULL before every value, PostgreSQL
  after every value.
\<close>

definition nulls_first :: "backend \<Rightarrow> bool" where
  "nulls_first be = (be \<noteq> postgresql)"

definition expiry_pk_key :: "backend \<Rightarrow> Batch \<Rightarrow> nat \<times> int \<times> nat" where
  "expiry_pk_key be b =
     (case expiry_date b of
        None \<Rightarrow> (if nulls_first be then 0 else 1, 0, b_id b)
      | Some e \<Rightarrow> (if nulls_first be then 1 else 0, e, b_id b))"

definition order_by_expiry_pk :: "backend \<Rightarrow> Batch list \<Rightarrow> Batch list" where
  "order_by_expiry_pk be bs = sort_key (expiry_pk_key be) bs"

section \<open>Allocation service (\<^verbatim>\<open>inventory/services/allocation.py\<close>)\<close>

text \<open>The eligible batches of an item, as the list of their ids in query order.\<close>

definition eligible :: "backend \<Rightarrow> int \<Rightarrow> nat \<Rightarrow> db \<Rightarrow> nat list" where
  "eligible be today item d =
     map b_id (order_by_expiry_pk be
       (filter (\<lambda>b. (case expiry_date b of None \<Rightarrow> True | Some e \<Rightarrow> e > today))
          (filter (\<lambda>b. b_item b = item \<and> b_status b = Batch_AVAILABLE \<and> available_qty b > 0)
             (batches d))))"

datatype line_status = fully_allocated | partially_allocated | allocation_failed

text \<open>
  The per-line result dictionary. The early return for a line that needs nothing has no
  \<^verbatim>\<open>qty_remaining\<close> key. Quantities stay exact (the source reports them through
  \<^verbatim>\<open>float\<close>); \<^verbatim>\<open>item_sku\<close> is left out, the Item table not being modelled.
\<close>

record item_result =
  r_order_item_id :: nat
  r_status :: line_status
  r_qty_requested :: rat
  r_qty_allocated :: rat
  r_qty_remaining :: "rat option"
  r_allocations :: "(string \<times> rat) list"

text \<open>
  One pass through the body of the \<^verbatim>\<open>while\<close> loop, after \<^verbatim>\<open>stack.pop()\<close> has
  returned \<open>batch_id\<close> (a slot of the stack's array, so possibly \<^verbatim>\<open>None\<close>):
  the locked read of the batch, the \<^verbatim>\<open>continue\<close> for a batch that is no longer
  usable, and otherwise the decrement, the Allocation row, the TransactionLog row and the
  bookkeeping. \<^verbatim>\<open>order_item.order\<close> is read from the database for the log entry.
\<close>

definition alloc_body ::
  "OrderItem \<Rightarrow> nat option \<Rightarrow> nat option \<Rightarrow> (string \<times> rat) list \<Rightarrow> rat \<Rightarrow> db
   \<Rightarrow> error + ((string \<times> rat) list \<times> rat \<times> db)" where
  "alloc_body order_item user batch_id allocations_made qty_remaining d =
     (case (case batch_id of None \<Rightarrow> None | Some pk \<Rightarrow> Batch_get pk d) of
        None \<Rightarrow> Inl DoesNotExist
      | Some batch \<Rightarrow>
         if available_qty batch \<le> 0 \<or> b_status batch \<noteq> Batch_AVAILABLE
         then Inr (allocations_made, qty_remaining, d)
         else
           (let qty_to_allocate = min (available_qty batch) qty_remaining;
                d1 = Batch_update_available (b_id batch) (\<lambda>a. a - qty_to_allocate) d;
                (allocation, d2) =
                   Allocation_create (oi_id order_item) (b_id batch) qty_to_allocate d1
            in case Order_get (oi_order order_item) d2 of
                 None \<Rightarrow> Inl DoesNotExist
               | Some order \<Rightarrow>
                  (case TransactionLog_create
                          \<lparr>t_pk = None, t_user = user, t_type = TYPE_RESERVE,
                           t_qty = qty_to_allocate, t_item = Some (oi_item order_item),
                           t_batch = Some (b_id batch), t_order = Some (o_id order),
                           t_shipment = None,
                           t_meta = JObj [(''order_no'', JStr (order_no order)),
                                          (''order_item_id'', JNum (of_nat (oi_id order_item))),
                                          (''allocation_id'', JNum (of_nat (a_id allocation))),
                                          (''algo'', JStr ''queue+stack'')]\<rparr> d2 of
                     (Inl e, _) \<Rightarrow> Inl e
                   | (Inr _, d3) \<Rightarrow>
                       Inr (allocations_made @ [(lot_no batch, qty_to_allocate)],
                            qty_remaining - qty_to_allocate, d3))))"

text \<open>
  The \<^verbatim>\<open>while (qty_remaining > 0) and (not stack.is_empty())\<close> loop. An exception
  ends the loop; its partial writes are dropped here because the only caller runs the loop
  inside \<^verbatim>\<open>transaction.atomic()\<close>.
\<close>

function alloc_loop ::
  "OrderItem \<Rightarrow> nat option \<Rightarrow> nat ManualStack \<Rightarrow> (string \<times> rat) list \<Rightarrow> rat \<Rightarrow> db
   \<Rightarrow> error + ((string \<times> rat) list \<times> rat \<times> db)" where
  "alloc_loop order_item user stack allocations_made qty_remaining d =
     (if qty_remaining > 0 \<and> \<not> stack_is_empty stack then
        (case stack_pop stack of
           Inl e \<Rightarrow> Inl e
         | Inr (batch_id, stack') \<Rightarrow>
            (case alloc_body order_item user batch_id allocations_made qty_remaining d of
               Inl e \<Rightarrow> Inl e
             | Inr (allocations_made', qty_remaining', d') \<Rightarrow>
                 alloc_loop order_item user stack' allocations_made' qty_remaining' d'))
      else Inr (allocations_made, qty_remaining, d))"
  by pat_completeness auto

termination
  by (relation "measure (\<lambda>(order_item, user, stack, made, rem, d). s_top stack)")
     (auto simp: stack_pop_def stack_is_empty_def Let_def split: if_splits)

declare alloc_loop.simps [simp del]

text \<open>\<^verbatim>\<open>_allocate_item_with_stack(order_item, user)\<close>\<close>

definition allocate_item_with_stack ::
  "backend \<Rightarrow> int \<Rightarrow> OrderItem \<Rightarrow> nat option \<Rightarrow> db \<Rightarrow> error + (item_result \<times> db)" where
  "allocate_item_with_stack be today order_item user d =
     (let item = oi_item order_item;
          qty_needed = qty_requested order_item - qty_allocated order_item
      in if qty_needed \<le> 0
         then Inr (\<lparr>r_order_item_id = oi_id order_item, r_status = fully_allocated,
                     r_qty_requested = qty_requested order_item,
                     r_qty_allocated = qty_allocated order_item,
                     r_qty_remaining = None, r_allocations = []\<rparr>, d)
         else
           (let rows = eligible be today item d
            in case push_all (rev rows) (ManualStack_init (max 16 (int (length rows)))) of
                 Inl e \<Rightarrow> Inl e
               | Inr stack \<Rightarrow>
                  (case alloc_loop order_item user stack [] qty_needed d of
                     Inl e \<Rightarrow> Inl e
                   | Inr (allocations_made, qty_remaining, d1) \<Rightarrow>
                      (let total_allocated = qty_needed - qty_remaining;
                           d2 = OrderItem_update_allocated (oi_id order_item)
                                  (\<lambda>a. a + total_allocated) d1
                       in case OrderItem_get (oi_id order_item) d2 of
                            None \<Rightarrow> Inl DoesNotExist
                          | Some refreshed \<Rightarrow>
                             (let status =
                                    (if qty_remaining \<le> 0 then fully_allocated
                                     else if total_allocated > 0 then partially_allocated
                                     else allocation_failed)
                              in Inr (\<lparr>r_order_item_id = oi_id order_item, r_status = status,
                                        r_qty_requested = qty_requested order_item,
                                        r_qty_allocated = qty_allocated refreshed,
                                        r_qty_remaining = Some qty_remaining,
                                        r_allocations = allocations_made\<rparr>, d2))))))"

text \<open>Decimal rendering of a count, for the f-strings of the messages.\<close>

function str_nat :: "nat \<Rightarrow> string" where
  "str_nat n =
     (if n < 10 then [''0123456789'' ! n]
      else str_nat (n div 10) @ [''0123456789'' ! (n mod 10)])"
  by pat_completeness auto

termination
  by (relation "measure id") auto

declare str_nat.simps [simp del]

record allocation_report =
  rep_order_id :: nat
  rep_order_no :: string
  rep_status :: order_status
  items_allocated :: nat
  items_partial :: nat
  items_failed :: nat
  details :: "item_result list"

text \<open>\<^verbatim>\<open>order.status = ...; order.save(update_fields=["status"])\<close>\<close>

definition Order_save_status :: "nat \<Rightarrow> order_status \<Rightarrow> db \<Rightarrow> db" where
  "Order_save_status pk st d =
     d\<lparr>orders := map (\<lambda>r. if o_id r = pk then r\<lparr>o_status := st\<rparr> else r) (orders d)\<rparr>"

text \<open>
  The \<^verbatim>\<open>while not task_q.is_empty()\<close> loop of \<^verbatim>\<open>allocate_order\<close>, with its three
  counters. A dequeued \<^verbatim>\<open>None\<close> would fail at \<^verbatim>\<open>order_item.item\<close>.
\<close>

function task_loop ::
  "backend \<Rightarrow> int \<Rightarrow> nat option \<Rightarrow> OrderItem ManualQueue \<Rightarrow> item_result list \<Rightarrow> nat \<Rightarrow> nat \<Rightarrow> nat
   \<Rightarrow> db \<Rightarrow> error + (item_result list \<times> nat \<times> nat \<times> nat \<times> db)" where
  "task_loop be today user task_q allocation_results fully partially failed d =
     (if \<not> queue_is_empty task_q then
        (case dequeue task_q of
           Inl e \<Rightarrow> Inl e
         | Inr (v, task_q') \<Rightarrow>
            (case v of
               None \<Rightarrow> Inl (AttributeError ''item'')
             | Some order_item \<Rightarrow>
                (case allocate_item_with_stack be today order_item user d of
                   Inl e \<Rightarrow> Inl e
                 | Inr (result, d') \<Rightarrow>
                    if r_status result = fully_allocated
                    then task_loop be today user task_q' (allocation_results @ [result])
                           (fully + 1) partially failed d'
                    else if r_status result = partially_allocated
                    then task_loop be today user task_q' (allocation_results @ [result])
                           fully (partially + 1) failed d'
                    else task_loop be today user task_q' (allocation_results @ [result])
                           fully partially (failed + 1) d')))
      else Inr (allocation_results, fully, partially, failed, d))"
  by pat_completeness auto

termination
  by (relation "measure (\<lambda>(be, today, user, task_q, rest). q_size task_q)")
     (auto simp: dequeue_def queue_is_empty_def split: if_splits)

declare task_loop.simps [simp del]

text \<open>
  \<^verbatim>\<open>allocate_order(order_id, user)\<close>. The lines of the order are read in table
  order. The result is the returned report or the raised exception, with the database
  after the call.
\<close>

definition allocate_order ::
  "backend \<Rightarrow> int \<Rightarrow> nat \<Rightarrow> nat option \<Rightarrow> db \<Rightarrow> (error + allocation_report) \<times> db" where
  "allocate_order be today order_id user d =
     (case Order_get order_id d of
        None \<Rightarrow> (Inl (OrderNotFoundError (''Order with ID '' @ str_nat order_id @ '' not found'')), d)
      | Some order \<Rightarrow>
         if o_status order = Order_CANCELLED
         then (Inl (AllocationError (''Cannot allocate cancelled order '' @ order_no order)), d)
         else
           (let items = filter (\<lambda>oi. oi_order oi = o_id order) (order_items d)
            in if items = []
               then (Inl (AllocationError (''Order '' @ order_no order @ '' has no items'')), d)
               else
                 (case enqueue_all items (ManualQueue_init (max 16 (int (length items)))) of
                    Inl e \<Rightarrow> (Inl e, d)
                  | Inr task_q \<Rightarrow>
                     atomic (\<lambda>d.
                       case task_loop be today user task_q [] 0 0 0 d of
                         Inl e \<Rightarrow> Inl e
                       | Inr (allocation_results, fully, partially, failed, d1) \<Rightarrow>
                          if fully = length items
                          then Inr (\<lparr>rep_order_id = o_id order, rep_order_no = order_no order,
                                      rep_status = Order_ALLOCATED,
                                      items_allocated = fully, items_partial = partially,
                                      items_failed = failed, details = allocation_results\<rparr>,
                                    Order_save_status (o_id order) Order_ALLOCATED d1)
                          else if failed = length items
                          then (let d2 = Notification_create user
                                           (''Order '' @ order_no order @
                                            '' allocation failed: insufficient stock for all items'')
                                           LEVEL_ERROR d1
                                in Inl (AllocationError
                                         (''Insufficient stock to allocate any items for order '' @
                                          order_no order)))
                          else Inr (\<lparr>rep_order_id = o_id order, rep_order_no = order_no order,
                                      rep_status = o_status order,
                                      items_allocated = fully, items_partial = partially,
                                      items_failed = failed, details = allocation_results\<rparr>,
                                    Notification_create user
                                      (''Order '' @ order_no order @ '' partially allocated: '' @
                                       str_nat fully @ ''/'' @ str_nat (length items) @
                                       '' items fully allocated'')
                                      LEVEL_WARNING d1)) d)))"

section \<open>Forward iteration\<close>

text \<open>
  The candidate walk as the specification words it: iterate the ascending-sorted list of
  candidate ids forward, stopping once nothing remains to allocate or the candidates are
  exhausted. Each visit is the loop body of the source.
\<close>

fun walk_candidates_forward ::
  "OrderItem \<Rightarrow> nat option \<Rightarrow> nat list \<Rightarrow> (string \<times> rat) list \<Rightarrow> rat \<Rightarrow> db
   \<Rightarrow> error + ((string \<times> rat) list \<times> rat \<times> db)" where
  "walk_candidates_forward order_item user [] allocations_made qty_remaining d =
     Inr (allocations_made, qty_remaining, d)"
| "walk_candidates_forward order_item user (pk # rest) allocations_made qty_remaining d =
     (if qty_remaining > 0 then
        (case alloc_body order_item user (Some pk) allocations_made qty_remaining d of
           Inl e \<Rightarrow> Inl e
         | Inr (allocations_made', qty_remaining', d') \<Rightarrow>
             walk_candidates_forward order_item user rest allocations_made' qty_remaining' d')
      else Inr (allocations_made, qty_remaining, d))"

text \<open>The lines of the order, taken in list order.\<close>

fun lines_forward ::
  "backend \<Rightarrow> int \<Rightarrow> nat option \<Rightarrow> OrderItem list \<Rightarrow> item_result list \<Rightarrow> nat \<Rightarrow> nat \<Rightarrow> nat
   \<Rightarrow> db \<Rightarrow> error + (item_result list \<times> nat \<times> nat \<times> nat \<times> db)" where
  "lines_forward be today user [] allocation_results fully partially failed d =
     Inr (allocation_results, fully, partially, failed, d)"
| "lines_forward be today user (order_item # rest) allocation_results fully partially failed d =
     (case allocate_item_with_stack be today order_item user d of
        Inl e \<Rightarrow> Inl e
      | Inr (result, d') \<Rightarrow>
         if r_status result = fully_allocated
         then lines_forward be today user rest (allocation_results @ [result])
                (fully + 1) partially failed d'
         else if r_status result = partially_allocated
         then lines_forward be today user rest (allocation_results @ [result])
                fully (partially + 1) failed d'
         else lines_forward be today user rest (allocation_results @ [result])
                fully partially (failed + 1) d')"

section \<open>Deallocation (\<^verbatim>\<open>DeallocateOrderView.post\<close> in \<^verbatim>\<open>inventory/views.py\<close>)\<close>

text \<open>
  \<^verbatim>\<open>instance.save()\<close> of a loaded row writes every field of the row with that key;
  \<^verbatim>\<open>instance.delete()\<close> removes it. Rows of the orders table carry an order number, so
  the numbering branch of \<^verbatim>\<open>Order.save\<close> is not taken.
\<close>

definition Batch_save :: "Batch \<Rightarrow> db \<Rightarrow> db" where
  "Batch_save self d =
     d\<lparr>batches := map (\<lambda>b. if b_id b = b_id self then self else b) (batches d)\<rparr>"



definition Allocation_delete :: "nat \<Rightarrow> db \<Rightarrow> db" where
  "Allocation_delete pk d = d\<lparr>allocations := filter (\<lambda>a. a_id a \<noteq> pk) (allocations d)\<rparr>"






section \<open>Undo and redo (\<^verbatim>\<open>inventory/models.py\<close>, \<^verbatim>\<open>inventory/services/undo_redo.py\<close>)\<close>

definition row_id :: "StackRow \<Rightarrow> nat" where
  "row_id r = (case u_pk r of None \<Rightarrow> 0 | Some k \<Rightarrow> k)"

text \<open>\<^verbatim>\<open>UndoStack.push(op_name, metadata=None)\<close>: \<^verbatim>\<open>metadata or {}\<close> is stored.\<close>

definition stack_table_push :: "string \<Rightarrow> json option \<Rightarrow> StackRow list \<Rightarrow> StackRow \<times> StackRow list" where
  "stack_table_push name meta rows =
     (let r = \<lparr>u_pk = Some (next_pk (map row_id rows)), op_name = name,
                metadata = (case meta of None \<Rightarrow> JObj [] | Some m \<Rightarrow> m)\<rparr>
      in (r, rows @ [r]))"

text \<open>
  \<^verbatim>\<open>pop()\<close>: the row with the largest id is deleted and an unsaved copy of it
  returned; \<^verbatim>\<open>None\<close> on an empty table.
\<close>

definition stack_table_pop :: "StackRow list \<Rightarrow> StackRow option \<times> StackRow list" where
  "stack_table_pop rows =
     (case find (\<lambda>r. row_id r = fold max (map row_id rows) 0) rows of
        None \<Rightarrow> (None, rows)
      | Some top_row \<Rightarrow>
          (Some \<lparr>u_pk = None, op_name = op_name top_row, metadata = metadata top_row\<rparr>,
           filter (\<lambda>r. u_pk r \<noteq> u_pk top_row) rows))"

definition UndoStack_push :: "string \<Rightarrow> json option \<Rightarrow> db \<Rightarrow> StackRow \<times> db" where
  "UndoStack_push name meta d =
     (case stack_table_push name meta (undo_stack d) of (r, rows) \<Rightarrow> (r, d\<lparr>undo_stack := rows\<rparr>))"

definition UndoStack_pop :: "db \<Rightarrow> StackRow option \<times> db" where
  "UndoStack_pop d =
     (case stack_table_pop (undo_stack d) of (r, rows) \<Rightarrow> (r, d\<lparr>undo_stack := rows\<rparr>))"

definition RedoStack_push :: "string \<Rightarrow> json option \<Rightarrow> db \<Rightarrow> StackRow \<times> db" where
  "RedoStack_push name meta d =
     (case stack_table_push name meta (redo_stack d) of (r, rows) \<Rightarrow> (r, d\<lparr>redo_stack := rows\<rparr>))"

definition RedoStack_pop :: "db \<Rightarrow> StackRow option \<times> db" where
  "RedoStack_pop d =
     (case stack_table_pop (redo_stack d) of (r, rows) \<Rightarrow> (r, d\<lparr>redo_stack := rows\<rparr>))"

text \<open>
  \<^verbatim>\<open>push_undo_operation(operation_type, data, user, description)\<close> calls
  \<^verbatim>\<open>UndoStack.push(operation_type=..., data=..., user=..., description=...)\<close>. The
  classmethod's parameters are \<^verbatim>\<open>op_name\<close> and \<^verbatim>\<open>metadata\<close>, so the call raises
  TypeError before anything is stored. \<^verbatim>\<open>push_redo_operation\<close> is the same on
  \<^verbatim>\<open>RedoStack\<close>.
\<close>

definition push_undo_operation :: "string \<Rightarrow> json \<Rightarrow> nat option \<Rightarrow> string \<Rightarrow> db \<Rightarrow> (error + unit) \<times> db" where
  "push_undo_operation operation_type data user description d =
     (Inl (TypeError ''operation_type''), d)"

definition push_redo_operation :: "string \<Rightarrow> json \<Rightarrow> nat option \<Rightarrow> string \<Rightarrow> db \<Rightarrow> (error + unit) \<times> db" where
  "push_redo_operation operation_type data user description d =
     (Inl (TypeError ''operation_type''), d)"

text \<open>
  \<^verbatim>\<open>perform_undo(user, count)\<close>. Each round pops the undo stack; on an empty stack the
  loop ends with the message "No more operations to undo". Otherwise the next statement
  reads \<^verbatim>\<open>undo_op.operation_type\<close>. The popped object is an \<^verbatim>\<open>UndoStack\<close>
  instance, whose fields are \<^verbatim>\<open>op_name\<close>, \<^verbatim>\<open>metadata\<close> and \<^verbatim>\<open>created_at\<close>: the
  read raises AttributeError. It stands before the \<^verbatim>\<open>try\<close> block, so the exception
  leaves \<^verbatim>\<open>perform_undo\<close>; the handler dispatch, the push to the redo stack and the
  re-push on failure are never reached. \<^verbatim>\<open>pop()\<close> has committed its delete by then.
\<close>

fun perform_undo_rounds :: "nat \<Rightarrow> nat option \<Rightarrow> string list \<Rightarrow> db \<Rightarrow> (error + string list) \<times> db" where
  "perform_undo_rounds 0 user results d = (Inr results, d)"
| "perform_undo_rounds (Suc n) user results d =
     (case UndoStack_pop d of
        (None, d1) \<Rightarrow> (Inr (results @ [''No more operations to undo'']), d1)
      | (Some undo_op, d1) \<Rightarrow> (Inl (AttributeError ''operation_type''), d1))"

definition perform_undo :: "nat option \<Rightarrow> int \<Rightarrow> db \<Rightarrow> (error + string list) \<times> db" where
  "perform_undo user count d = perform_undo_rounds (nat count) user [] d"

fun perform_redo_rounds :: "nat \<Rightarrow> nat option \<Rightarrow> string list \<Rightarrow> db \<Rightarrow> (error + string list) \<times> db" where
  "perform_redo_rounds 0 user results d = (Inr results, d)"
| "perform_redo_rounds (Suc n) user results d =
     (case RedoStack_pop d of
        (None, d1) \<Rightarrow> (Inr (results @ [''No more operations to redo'']), d1)
      | (Some redo_op, d1) \<Rightarrow> (Inl (AttributeError ''operation_type''), d1))"

definition perform_redo :: "nat option \<Rightarrow> int \<Rightarrow> db \<Rightarrow> (error + string list) \<times> db" where
  "perform_redo user count d = perform_redo_rounds (nat count) user [] d"

text \<open>
  The handler \<^verbatim>\<open>undo_receive(data, user)\<close>, on the list \<^verbatim>\<open>data["batch_ids"]\<close>. For
  the first batch it refuses when the batch has allocations; otherwise it goes on to
  \<^verbatim>\<open>TransactionLog.objects.create(batch=..., qty_change=..., transaction_type=...,
  user=..., notes=...)\<close>, which raises TypeError because TransactionLog has no field
  \<^verbatim>\<open>qty_change\<close>. Either way the atomic block is rolled back.
\<close>

definition undo_receive :: "nat list \<Rightarrow> nat option \<Rightarrow> db \<Rightarrow> (error + string) \<times> db" where
  "undo_receive batch_ids user d =
     atomic (\<lambda>d.
       case batch_ids of
         [] \<Rightarrow> Inr (''Undid receive operation: 0 batch(es) deleted'', d)
       | batch_id # _ \<Rightarrow>
          (case Batch_get batch_id d of
             None \<Rightarrow> Inl DoesNotExist
           | Some batch \<Rightarrow>
              if filter (\<lambda>a. a_batch a = b_id batch) (allocations d) \<noteq> []
              then Inl (UndoRedoError (''Cannot undo receive: Batch '' @ lot_no batch @
                                        '' has active allocations''))
              else Inl (TypeError ''qty_change''))) d"

text \<open>
  The handler \<^verbatim>\<open>undo_allocation(data, user)\<close>, on \<^verbatim>\<open>data["order_id"]\<close> and the
  entries (allocation id, batch id, quantity) of \<^verbatim>\<open>data["allocations"]\<close>. The first
  entry deletes its Allocation row and restores the batch, then reaches the same ill-formed
  \<^verbatim>\<open>TransactionLog.objects.create\<close> call. With no entries the handler reads
  \<^verbatim>\<open>Order.STATUS_PENDING\<close>, which class Order does not define.
\<close>

definition undo_allocation ::
  "nat \<Rightarrow> (nat \<times> nat \<times> rat) list \<Rightarrow> nat option \<Rightarrow> db \<Rightarrow> (error + string) \<times> db" where
  "undo_allocation order_id allocs user d =
     atomic (\<lambda>d.
       case allocs of
         [] \<Rightarrow>
          (case Order_get order_id d of
             None \<Rightarrow> Inl DoesNotExist
           | Some order \<Rightarrow> Inl (AttributeError ''STATUS_PENDING''))
       | (allocation_id, batch_id, qty) # _ \<Rightarrow>
          (let d1 = Allocation_delete allocation_id d
           in case Batch_get batch_id d1 of
                None \<Rightarrow> Inl DoesNotExist
              | Some batch \<Rightarrow>
                 (let d2 = Batch_save
                             (batch\<lparr>available_qty := available_qty batch + qty\<rparr>) d1
                  in Inl (TypeError ''qty_change'')))) d"

section \<open>The ledger invariant\<close>













section \<open>The scenario of \<^verbatim>\<open>inventory/tests/test_fefo_allocation.py\<close>\<close>

text \<open>
  \<^verbatim>\<open>FEFOAllocationTestCase.setUp\<close>: one item with three available batches, LOT-A
  (50 units, expiring in 5 days), LOT-B (100 units, expiring in 30 days) and LOT-C (75
  units, no expiry), and the order ORD-001 in status NEW; then one order line for the
  requested quantity, as each test adds it.
\<close>

definition lot_A :: "int \<Rightarrow> Batch" where
  "lot_A today =
     \<lparr>b_id = 1, b_item = 1, lot_no = ''LOT-A'', received_qty = 50, available_qty = 50,
      expiry_date = Some (today + 5), b_status = Batch_AVAILABLE\<rparr>"

definition lot_B :: "int \<Rightarrow> Batch" where
  "lot_B today =
     \<lparr>b_id = 2, b_item = 1, lot_no = ''LOT-B'', received_qty = 100, available_qty = 100,
      expiry_date = Some (today + 30), b_status = Batch_AVAILABLE\<rparr>"

definition lot_C :: "Batch" where
  "lot_C =
     \<lparr>b_id = 3, b_item = 1, lot_no = ''LOT-C'', received_qty = 75, available_qty = 75,
      expiry_date = None, b_status = Batch_AVAILABLE\<rparr>"

definition fefo_fixture :: "int \<Rightarrow> rat \<Rightarrow> db" where
  "fefo_fixture today requested =
     \<lparr>batches = [lot_A today, lot_B today, lot_C],
      orders = [\<lparr>o_id = 1, order_no = ''ORD-001'', customer_name = ''Test Customer'',
                 o_status = Order_NEW\<rparr>],
      order_items = [\<lparr>oi_id = 1, oi_order = 1, oi_item = 1, qty_requested = requested,
                      qty_allocated = 0\<rparr>],
      allocations = [], transaction_logs = [], notifications = [],
      undo_stack = [], redo_stack = []\<rparr>"

section \<open>Predicates used in the statements\<close>




text \<open>
  The same scenario with no stock at all for the item, and the state after the order for
  120 units has been allocated on PostgreSQL. \<open>with_undo_record\<close> puts a record on the
  undo stack the only way the model class offers, \<^verbatim>\<open>UndoStack.push(op_name, metadata)\<close>.
\<close>

definition no_stock_fixture :: "int \<Rightarrow> rat \<Rightarrow> db" where
  "no_stock_fixture today requested = (fefo_fixture today requested)\<lparr>batches := []\<rparr>"

definition after_allocation :: db where
  "after_allocation =
     snd (allocate_order (DATABASES (Some ''postgres'')) 0 1 None (fefo_fixture 0 120))"

definition with_undo_record :: "string \<Rightarrow> json \<Rightarrow> db \<Rightarrow> db" where
  "with_undo_record name meta d = snd (UndoStack_push name (Some meta) d)"

definition allocation_payload :: json where
  "allocation_payload =
     JObj [(''order_id'', JNum 1),
           (''allocations'',
            JArr [JObj [(''allocation_id'', JNum 1), (''batch_id'', JNum 1),
                        (''qty_allocated'', JNum 50)],
                  JObj [(''allocation_id'', JNum 2), (''batch_id'', JNum 2),
                        (''qty_allocated'', JNum 70)]])]"

definition receive_payload :: json where
  "receive_payload = JObj [(''batch_ids'', JArr [JNum 1])]"


section \<open>Verification\<close>

lemma stack_abs_init: "stack_abs (ManualStack_init c) []"
  by (simp add: stack_abs_def ManualStack_init_def Let_def)

lemma stack_abs_push:
  assumes "stack_abs s xs"
  shows "\<exists>s'. stack_push v s = Inr s' \<and> stack_abs s' (v # xs)"
proof -
  define g where "g = (if s_top s = length (s_data s) then stack_grow s else s)"
  have top: "s_top g = length xs"
    using assms by (simp add: g_def stack_abs_def stack_grow_def Let_def)
  have lt: "length xs < length (s_data g)"
    using assms by (auto simp: g_def stack_abs_def stack_grow_def Let_def)
  have tk: "take (length xs) (s_data g) = map Some (rev xs)"
    using assms by (auto simp: g_def stack_abs_def stack_grow_def Let_def)
  have push: "stack_push v s =
      Inr (g\<lparr>s_data := (s_data g)[s_top g := Some v], s_top := s_top g + 1\<rparr>)"
    using top lt by (simp add: stack_push_def g_def [symmetric] Let_def)
  have "take (Suc (length xs)) ((s_data g)[length xs := Some v]) = map Some (rev xs) @ [Some v]"
    using lt tk by (simp add: take_Suc_conv_app_nth)
  then have "stack_abs (g\<lparr>s_data := (s_data g)[s_top g := Some v], s_top := s_top g + 1\<rparr>) (v # xs)"
    using top lt by (simp add: stack_abs_def)
  with push show ?thesis by blast
qed

lemma stack_abs_pop:
  assumes "stack_abs s (x # xs)"
  shows "\<exists>s'. stack_pop s = Inr (Some x, s') \<and> stack_abs s' xs"
proof -
  have top: "s_top s = Suc (length xs)" and lt: "length xs < length (s_data s)"
    and tk: "take (Suc (length xs)) (s_data s) = map Some (rev xs) @ [Some x]"
    using assms by (simp_all add: stack_abs_def)
  from tk lt have nth: "s_data s ! length xs = Some x"
    by (metis length_map length_rev nth_append_length nth_take lessI)
  from tk lt have tk': "take (length xs) (s_data s) = map Some (rev xs)"
    by (metis take_Suc_conv_app_nth append1_eq_conv)
  have "stack_pop s =
      Inr (Some x, s\<lparr>s_data := (s_data s)[length xs := None], s_top := length xs\<rparr>)"
    using top lt nth by (simp add: stack_pop_def Let_def)
  moreover have "stack_abs (s\<lparr>s_data := (s_data s)[length xs := None], s_top := length xs\<rparr>) xs"
    using lt tk' by (simp add: stack_abs_def)
  ultimately show ?thesis by blast
qed

lemma stack_abs_empty: "stack_abs s xs \<Longrightarrow> stack_is_empty s \<longleftrightarrow> xs = []"
  by (auto simp: stack_abs_def stack_is_empty_def)

lemma push_all_abs:
  "stack_abs s xs \<Longrightarrow> \<exists>s'. push_all vs s = Inr s' \<and> stack_abs s' (rev vs @ xs)"
proof (induction vs arbitrary: s xs)
  case Nil
  then show ?case by simp
next
  case (Cons v vs)
  from stack_abs_push [OF Cons.prems, of v]
  obtain s1 where p: "stack_push v s = Inr s1" and a: "stack_abs s1 (v # xs)" by blast
  from Cons.IH [OF a] p show ?case by simp
qed

lemma pop_all_abs: "stack_abs s xs \<Longrightarrow> pop_all s = Inr (map Some xs)"
proof (induction xs arbitrary: s)
  case Nil
  then show ?case by (subst pop_all.simps) (simp add: stack_abs_empty)
next
  case (Cons x xs)
  from stack_abs_pop [OF Cons.prems]
  obtain s1 where p: "stack_pop s = Inr (Some x, s1)" and a: "stack_abs s1 xs" by blast
  have ne: "\<not> stack_is_empty s" using Cons.prems by (simp add: stack_abs_empty)
  show ?case
    by (subst pop_all.simps) (simp add: ne p Cons.IH [OF a])
qed

lemma queue_abs_init: "queue_abs (ManualQueue_init c) []"
  by (simp add: queue_abs_def ManualQueue_init_def Let_def)

lemma queue_init_head: "q_head (ManualQueue_init c) = 0"
  by (simp add: ManualQueue_init_def Let_def)

lemma queue_init_length:
  "length (q_data (ManualQueue_init c :: 'a ManualQueue)) = (if c \<le> 0 then 16 else nat c)"
  by (simp add: ManualQueue_init_def Let_def)

lemma queue_abs_enqueue:
  assumes "queue_abs q ys" and "q_head q + length ys < length (q_data q)"
  shows "\<exists>q'. enqueue v q = Inr q' \<and> queue_abs q' (ys @ [v]) \<and>
              q_head q' = q_head q \<and> length (q_data q') = length (q_data q)"
proof -
  let ?n = "length ys" and ?h = "q_head q" and ?d = "q_data q"
  have sz: "q_size q = ?n" and tl: "q_tail q = ?h + ?n"
    and tk: "take ?n (drop ?h ?d) = map Some ys"
    using assms by (simp_all add: queue_abs_def)
  let ?q' = "q\<lparr>q_data := ?d[q_tail q := Some v],
                q_tail := (q_tail q + 1) mod length ?d, q_size := q_size q + 1\<rparr>"
  have e: "enqueue v q = Inr ?q'"
    using assms(2) sz tl by (simp add: enqueue_def)
  have "take (Suc ?n) (drop ?h (?d[?h + ?n := Some v])) = map Some ys @ [Some v]"
    using assms(2) tk by (simp add: take_Suc_conv_app_nth drop_update_swap)
  moreover have "0 < length ?d" using assms(2) by linarith
  ultimately have "queue_abs ?q' (ys @ [v])"
    using assms(2) sz tl by (simp add: queue_abs_def)
  with e show ?thesis by auto
qed

lemma enqueue_all_abs:
  "queue_abs q ys \<Longrightarrow> q_head q + length ys + length vs \<le> length (q_data q) \<Longrightarrow>
   \<exists>q'. enqueue_all vs q = Inr q' \<and> queue_abs q' (ys @ vs)"
proof (induction vs arbitrary: q ys)
  case Nil
  then show ?case by simp
next
  case (Cons v vs)
  from Cons.prems have "q_head q + length ys < length (q_data q)" by simp
  from queue_abs_enqueue [OF Cons.prems(1) this, of v]
  obtain q1 where e: "enqueue v q = Inr q1" and a: "queue_abs q1 (ys @ [v])"
    and h: "q_head q1 = q_head q" and l: "length (q_data q1) = length (q_data q)" by blast
  from Cons.prems(2) h l have "q_head q1 + length (ys @ [v]) + length vs \<le> length (q_data q1)"
    by simp
  from Cons.IH [OF a this] e show ?case by simp
qed

lemma queue_abs_dequeue:
  assumes "queue_abs q (y # ys)"
  shows "\<exists>q'. dequeue q = Inr (Some y, q') \<and> queue_abs q' ys"
proof -
  let ?n = "length ys" and ?h = "q_head q" and ?d = "q_data q"
  have sz: "q_size q = Suc ?n" and le: "?h + Suc ?n \<le> length ?d"
    and tk: "take (Suc ?n) (drop ?h ?d) = Some y # map Some ys"
    and tl: "q_tail q = (?h + Suc ?n) mod length ?d"
    using assms by (simp_all add: queue_abs_def)
  from le have hlt: "?h < length ?d" by simp
  from tk hlt have nth: "?d ! ?h = Some y"
    by (metis Cons_nth_drop_Suc list.inject take_Suc_Cons)
  from tk hlt have tk': "take ?n (drop (Suc ?h) ?d) = map Some ys"
    by (metis Cons_nth_drop_Suc list.inject take_Suc_Cons)
  let ?q' = "q\<lparr>q_data := ?d[?h := None], q_head := (?h + 1) mod length ?d,
                q_size := q_size q - 1\<rparr>"
  have d: "dequeue q = Inr (Some y, ?q')"
    using sz hlt nth by (simp add: dequeue_def)
  have pos: "0 < length ?d" using hlt by linarith
  have "queue_abs ?q' ys"
  proof (cases "Suc ?h = length ?d")
    case True
    with le have "length ys = 0" by linarith
    then have "ys = []" by simp
    with True sz pos tl show ?thesis by (simp add: queue_abs_def)
  next
    case False
    with hlt have m: "(?h + 1) mod length ?d = Suc ?h" by simp
    have "take ?n (drop (Suc ?h) (?d[?h := None])) = map Some ys"
      using tk' by (simp add: drop_update_cancel)
    with m sz le tl pos show ?thesis by (simp add: queue_abs_def)
  qed
  with d show ?thesis by blast
qed

lemma queue_abs_empty: "queue_abs q ys \<Longrightarrow> queue_is_empty q \<longleftrightarrow> ys = []"
  by (auto simp: queue_abs_def queue_is_empty_def)

lemma alloc_loop_forward:
  "stack_abs stack ids \<Longrightarrow>
   alloc_loop order_item user stack made qty_remaining d =
   walk_candidates_forward order_item user ids made qty_remaining d"
proof (induction ids arbitrary: stack made qty_remaining d)
  case Nil
  then show ?case
    by (subst alloc_loop.simps) (simp add: stack_abs_empty)
next
  case (Cons pk rest)
  from stack_abs_pop [OF Cons.prems]
  obtain s1 where p: "stack_pop stack = Inr (Some pk, s1)" and a: "stack_abs s1 rest" by blast
  have ne: "\<not> stack_is_empty stack" using Cons.prems by (simp add: stack_abs_empty)
  show ?case
    by (subst alloc_loop.simps)
       (simp add: ne p Cons.IH [OF a] split: sum.splits prod.splits)
qed

lemma task_loop_forward:
  "queue_abs task_q items \<Longrightarrow>
   task_loop be today user task_q results fully partially failed d =
   lines_forward be today user items results fully partially failed d"
proof (induction items arbitrary: task_q results fully partially failed d)
  case Nil
  then show ?case
    by (subst task_loop.simps) (simp add: queue_abs_empty)
next
  case (Cons order_item rest)
  from queue_abs_dequeue [OF Cons.prems]
  obtain q1 where p: "dequeue task_q = Inr (Some order_item, q1)" and a: "queue_abs q1 rest"
    by blast
  have ne: "\<not> queue_is_empty task_q" using Cons.prems by (simp add: queue_abs_empty)
  show ?case
    by (subst task_loop.simps)
       (simp add: ne p Cons.IH [OF a] split: sum.splits prod.splits)
qed

lemma stack_of_eligible:
  "\<exists>stack. push_all (rev ids) (ManualStack_init c) = Inr stack \<and> stack_abs stack ids"
  using push_all_abs [OF stack_abs_init, of "rev ids" c] by simp

lemma queue_of_items:
  "\<exists>task_q. enqueue_all items (ManualQueue_init (max 16 (int (length items)))) = Inr task_q \<and>
            queue_abs task_q items"
proof -
  let ?q = "ManualQueue_init (max 16 (int (length items))) :: 'a ManualQueue"
  have "q_head ?q + length ([] :: 'a list) + length items \<le> length (q_data ?q)"
    by (simp add: queue_init_head queue_init_length)
  from enqueue_all_abs [OF queue_abs_init this] show ?thesis by simp
qed













lemma allocate_item_forward:
  "allocate_item_with_stack be today order_item user d =
     (let qty_needed = qty_requested order_item - qty_allocated order_item
      in if qty_needed \<le> 0
         then Inr (\<lparr>r_order_item_id = oi_id order_item, r_status = fully_allocated,
                     r_qty_requested = qty_requested order_item,
                     r_qty_allocated = qty_allocated order_item,
                     r_qty_remaining = None, r_allocations = []\<rparr>, d)
         else
           (case walk_candidates_forward order_item user
                   (eligible be today (oi_item order_item) d) [] qty_needed d of
              Inl e \<Rightarrow> Inl e
            | Inr (allocations_made, qty_remaining, d1) \<Rightarrow>
               (let total_allocated = qty_needed - qty_remaining;
                    d2 = OrderItem_update_allocated (oi_id order_item)
                           (\<lambda>a. a + total_allocated) d1
                in case OrderItem_get (oi_id order_item) d2 of
                     None \<Rightarrow> Inl DoesNotExist
                   | Some refreshed \<Rightarrow>
                       Inr (\<lparr>r_order_item_id = oi_id order_item,
                             r_status = (if qty_remaining \<le> 0 then fully_allocated
                                         else if total_allocated > 0 then partially_allocated
                                         else allocation_failed),
                             r_qty_requested = qty_requested order_item,
                             r_qty_allocated = qty_allocated refreshed,
                             r_qty_remaining = Some qty_remaining,
                             r_allocations = allocations_made\<rparr>, d2))))"
proof -
  obtain stack where p: "push_all (rev (eligible be today (oi_item order_item) d))
        (ManualStack_init (max 16 (int (length (eligible be today (oi_item order_item) d))))) = Inr stack"
    and a: "stack_abs stack (eligible be today (oi_item order_item) d)"
    using stack_of_eligible by blast
  show ?thesis
    by (simp add: allocate_item_with_stack_def Let_def p alloc_loop_forward [OF a]
          split: sum.splits prod.splits option.splits)
qed

lemma allocate_order_forward:
  "allocate_order be today order_id user d =
     (case Order_get order_id d of
        None \<Rightarrow> (Inl (OrderNotFoundError (''Order with ID '' @ str_nat order_id @ '' not found'')), d)
      | Some order \<Rightarrow>
         if o_status order = Order_CANCELLED
         then (Inl (AllocationError (''Cannot allocate cancelled order '' @ order_no order)), d)
         else
           (let items = filter (\<lambda>oi. oi_order oi = o_id order) (order_items d)
            in if items = []
               then (Inl (AllocationError (''Order '' @ order_no order @ '' has no items'')), d)
               else
                 (case lines_forward be today user items [] 0 0 0 d of
                    Inl e \<Rightarrow> (Inl e, d)
                  | Inr (allocation_results, fully, partially, failed, d1) \<Rightarrow>
                     if fully = length items
                     then (Inr \<lparr>rep_order_id = o_id order, rep_order_no = order_no order,
                                 rep_status = Order_ALLOCATED,
                                 items_allocated = fully, items_partial = partially,
                                 items_failed = failed, details = allocation_results\<rparr>,
                           Order_save_status (o_id order) Order_ALLOCATED d1)
                     else if failed = length items
                     then (Inl (AllocationError
                                 (''Insufficient stock to allocate any items for order '' @
                                  order_no order)), d)
                     else (Inr \<lparr>rep_order_id = o_id order, rep_order_no = order_no order,
                                 rep_status = o_status order,
                                 items_allocated = fully, items_partial = partially,
                                 items_failed = failed, details = allocation_results\<rparr>,
                           Notification_create user
                             (''Order '' @ order_no order @ '' partially allocated: '' @
                              str_nat fully @ ''/'' @ str_nat (length items) @
                              '' items fully allocated'')
                             LEVEL_WARNING d1))))"
proof (cases "Order_get order_id d")
  case None
  then show ?thesis by (simp add: allocate_order_def)
next
  case (Some order)
  let ?items = "filter (\<lambda>oi. oi_order oi = o_id order) (order_items d)"
  obtain task_q where e: "enqueue_all ?items (ManualQueue_init (max 16 (int (length ?items)))) = Inr task_q"
    and a: "queue_abs task_q ?items"
    using queue_of_items by blast
  show ?thesis
    by (simp add: allocate_order_def Some Let_def e atomic_def task_loop_forward [OF a]
          split: sum.splits prod.splits)
qed

text \<open>
  Claim C9. For every list of batch ids and every initial capacity, pushing the list in
  reversed order onto a fresh ManualStack succeeds, popping until the stack is empty then
  yields exactly the original list in order, and the allocation loop of
  \<^verbatim>\<open>_allocate_item_with_stack\<close> run on that stack computes the same result, from any
  state, as iterating the candidate list forward.
\<close>

theorem stack_traversal_is_forward_iteration:
  "(case push_all (rev ids) (ManualStack_init capacity) of
      Inl e \<Rightarrow> False
    | Inr stack \<Rightarrow>
        pop_all stack = Inr (map Some ids) \<and>
        alloc_loop order_item user stack made qty_remaining d =
        walk_candidates_forward order_item user ids made qty_remaining d)"
proof -
  obtain stack where p: "push_all (rev ids) (ManualStack_init capacity) = Inr stack"
    and a: "stack_abs stack ids"
    using stack_of_eligible by blast
  show ?thesis
    by (simp add: p pop_all_abs [OF a] alloc_loop_forward [OF a])
qed

text \<open>
  Claim C10. For every batch, every database state and every quantity \<open>qty \<le> 0\<close>,
  \<^verbatim>\<open>Batch.reserve\<close> raises ValueError ("Reserve quantity must be > 0") and leaves the
  whole database, hence every field of the batch, unchanged: the check stands before the
  atomic block and the locked read.
\<close>

theorem reserve_rejects_nonpositive_qty:
  "qty \<le> 0 \<Longrightarrow> reserve self qty d = (Inl (ValueError ''Reserve quantity must be > 0''), d)"
  by (simp add: reserve_def)

theorem reserve_rejects_nonpositive_qty_witness:
  "(- 3 :: rat) \<le> 0 \<and>
   reserve (lot_A 0) (- 3) (fefo_fixture 0 120) =
     (Inl (ValueError ''Reserve quantity must be > 0''), fefo_fixture 0 120)"
  using reserve_rejects_nonpositive_qty [of "- 3" "lot_A 0" "fefo_fixture 0 120"] by simp









lemmas eval_defs =
  allocate_order_forward allocate_item_forward fefo_fixture_def lot_A_def lot_B_def lot_C_def
  Order_get_def Let_def
  eligible_def order_by_expiry_pk_def expiry_pk_key_def nulls_first_def
  alloc_body_def Batch_get_def Batch_update_available_def Allocation_create_def
  TransactionLog_create_def TransactionLog_save_def Model_save_log_def truthy_pk_def
  next_pk_def OrderItem_update_allocated_def OrderItem_get_def Order_save_status_def
  Notification_create_def DATABASES_def database_config_from_url_def

text \<open>
  Claim C2, evaluated. The order line asks for 120 units of the item of the test scenario.
  With the project's default database (\<^verbatim>\<open>DATABASE_URL\<close> unset, SQLite) the batch
  without expiry date comes first in the candidate list: the code allocates 75 units from
  LOT-C and 45 from LOT-A and leaves 5, 100 and 0 units. On PostgreSQL the same call
  allocates 50 from LOT-A and 70 from LOT-B and leaves 0, 30 and 75, as the claim says.
\<close>

theorem fefo_split_depends_on_database:
  "map (\<lambda>a. (a_batch a, a_qty_allocated a))
     (allocations (snd (allocate_order (DATABASES None) today 1 user (fefo_fixture today 120))))
     = [(3, 75), (1, 45)] \<and>
   map available_qty
     (batches (snd (allocate_order (DATABASES None) today 1 user (fefo_fixture today 120))))
     = [5, 100, 0] \<and>
   map (\<lambda>a. (a_batch a, a_qty_allocated a))
     (allocations (snd (allocate_order (DATABASES (Some ''postgres'')) today 1 user
                          (fefo_fixture today 120))))
     = [(1, 50), (2, 70)] \<and>
   map available_qty
     (batches (snd (allocate_order (DATABASES (Some ''postgres'')) today 1 user
                      (fefo_fixture today 120))))
     = [0, 30, 75]"
  by (simp add: eval_defs)

text \<open>
  Claim C3, evaluated. The order line asks for 300 units against 225 available. On every
  database backend \<^verbatim>\<open>allocate_order\<close> returns a report instead of raising: the line is
  \<^verbatim>\<open>partially_allocated\<close> with 75 units remaining, three Allocation rows exist
  afterwards, every batch is down to 0, the order is still NEW and a warning notification
  has been stored.
\<close>

theorem insufficient_stock_allocates_partially:
  "(case allocate_order be today 1 user (fefo_fixture today 300) of
      (Inl e, d') \<Rightarrow> False
    | (Inr report, d') \<Rightarrow>
        map r_status (details report) = [partially_allocated] \<and>
        map r_qty_remaining (details report) = [Some 75] \<and>
        rep_status report = Order_NEW \<and>
        length (allocations d') = 3 \<and>
        sum_list (map a_qty_allocated (allocations d')) = 225 \<and>
        map available_qty (batches d') = [0, 0, 0] \<and>
        map n_level (notifications d') = [LEVEL_WARNING])"
  by (cases be) (simp_all add: eval_defs)

text \<open>
  Claim C4, evaluated at a total failure. The order line asks for 10 units of an item with
  no stock. \<^verbatim>\<open>allocate_order\<close> raises AllocationError and the database is exactly as
  before the call: the error notification was created inside the atomic block that the
  exception rolls back, so no notification is stored.
\<close>

theorem total_failure_persists_no_notification:
  "allocate_order be today 1 user (no_stock_fixture today 10) =
     (Inl (AllocationError ''Insufficient stock to allocate any items for order ORD-001''),
      no_stock_fixture today 10) \<and>
   notifications (snd (allocate_order be today 1 user (no_stock_fixture today 10))) = []"
  by (simp add: eval_defs no_stock_fixture_def)

lemma after_allocation_tables:
  "batches after_allocation =
     [(lot_A 0)\<lparr>available_qty := 0\<rparr>, (lot_B 0)\<lparr>available_qty := 30\<rparr>, lot_C]"
  "allocations after_allocation =
     [\<lparr>a_id = 1, a_order_item = 1, a_batch = 1, a_qty_allocated = 50\<rparr>,
      \<lparr>a_id = 2, a_order_item = 1, a_batch = 2, a_qty_allocated = 70\<rparr>]"
  "undo_stack after_allocation = []"
  by (simp_all add: after_allocation_def eval_defs)

lemma perform_undo_empty:
  "undo_stack d = [] \<Longrightarrow> perform_undo user 1 d = (Inr [''No more operations to undo''], d)"
  by (simp add: perform_undo_def UndoStack_pop_def stack_table_pop_def)

lemma perform_undo_single:
  "undo_stack d = [] \<Longrightarrow>
   perform_undo user 1 (with_undo_record name meta d) = (Inl (AttributeError ''operation_type''), d)"
  by (simp add: perform_undo_def UndoStack_pop_def stack_table_pop_def with_undo_record_def
        UndoStack_push_def stack_table_push_def next_pk_def row_id_def Let_def)

text \<open>
  Claim C6, evaluated after the successful allocation of 120 units (50 from LOT-A, 70 from
  LOT-B). \<^verbatim>\<open>allocate_order\<close> has recorded nothing on the undo stack, and
  \<^verbatim>\<open>push_undo_operation\<close> cannot record anything; \<^verbatim>\<open>perform_undo(user, 1)\<close> then
  reports "No more operations to undo" and changes nothing. The handler
  \<^verbatim>\<open>undo_allocation\<close>, called by itself on the two allocations, raises TypeError and is
  rolled back. With an allocation record put
  on the stack through \<^verbatim>\<open>UndoStack.push\<close>, \<^verbatim>\<open>perform_undo(user, 1)\<close> removes the
  record and raises AttributeError. In both cases the batches keep 0, 30 and 75 units
  and both Allocation rows remain; nothing reaches the redo stack.
\<close>

theorem undo_after_allocation_restores_nothing:
  "perform_undo user 1 after_allocation =
     (Inr [''No more operations to undo''], after_allocation) \<and>
   push_undo_operation ''allocation'' allocation_payload user ''Allocate ORD-001'' after_allocation =
     (Inl (TypeError ''operation_type''), after_allocation) \<and>
   perform_undo user 1 (with_undo_record ''allocation'' allocation_payload after_allocation) =
     (Inl (AttributeError ''operation_type''), after_allocation) \<and>
   map available_qty (batches after_allocation) = [0, 30, 75] \<and>
   map a_qty_allocated (allocations after_allocation) = [50, 70] \<and>
   undo_allocation 1 [(1, 1, 50), (2, 2, 70)] user after_allocation =
     (Inl (TypeError ''qty_change''), after_allocation) \<and>
   perform_redo user 1 after_allocation =
     (Inr [''No more operations to redo''], after_allocation)"
proof -
  have e: "undo_stack after_allocation = []" by (simp add: after_allocation_tables)
  have r: "redo_stack after_allocation = []" by (simp add: after_allocation_def eval_defs)
  have "perform_redo user 1 after_allocation =
     (Inr [''No more operations to redo''], after_allocation)"
    using r by (simp add: perform_redo_def RedoStack_pop_def stack_table_pop_def)
  moreover have "undo_allocation 1 [(1, 1, 50), (2, 2, 70)] user after_allocation =
     (Inl (TypeError ''qty_change''), after_allocation)"
    by (simp add: undo_allocation_def atomic_def Allocation_delete_def Batch_get_def
          after_allocation_tables lot_A_def Let_def)
  ultimately show ?thesis
    by (simp add: perform_undo_empty [OF e] perform_undo_single [OF e] push_undo_operation_def
          after_allocation_tables lot_A_def lot_B_def lot_C_def)
qed

text \<open>
  Claim C7, evaluated. LOT-A has an allocation and a \<open>receive\<close> record for it lies on the
  undo stack. The handler \<^verbatim>\<open>undo_receive\<close>, called by itself, refuses with
  UndoRedoError and changes nothing. \<^verbatim>\<open>perform_undo(user, 1)\<close> never calls it: it pops
  the record, raises AttributeError, and the undo stack is left empty instead of holding
  the record again. No batch is deleted.
\<close>

theorem undo_receive_record_is_lost:
  "filter (\<lambda>a. a_batch a = 1) (allocations after_allocation) \<noteq> [] \<and>
   undo_receive [1] user (with_undo_record ''receive'' receive_payload after_allocation) =
     (Inl (UndoRedoError ''Cannot undo receive: Batch LOT-A has active allocations''),
      with_undo_record ''receive'' receive_payload after_allocation) \<and>
   perform_undo user 1 (with_undo_record ''receive'' receive_payload after_allocation) =
     (Inl (AttributeError ''operation_type''), after_allocation) \<and>
   undo_stack (with_undo_record ''receive'' receive_payload after_allocation) =
     [\<lparr>u_pk = Some 1, op_name = ''receive'', metadata = receive_payload\<rparr>] \<and>
   undo_stack (snd (perform_undo user 1
                      (with_undo_record ''receive'' receive_payload after_allocation))) = [] \<and>
   batches (snd (perform_undo user 1
                   (with_undo_record ''receive'' receive_payload after_allocation))) =
     batches after_allocation"
proof -
  let ?d = "with_undo_record ''receive'' receive_payload after_allocation"
  have st: "undo_stack ?d = [\<lparr>u_pk = Some 1, op_name = ''receive'', metadata = receive_payload\<rparr>]"
    by (simp add: after_allocation_tables with_undo_record_def UndoStack_push_def
          stack_table_push_def next_pk_def row_id_def Let_def)
  have tb: "batches ?d = batches after_allocation" "allocations ?d = allocations after_allocation"
    by (simp_all add: with_undo_record_def UndoStack_push_def stack_table_push_def Let_def)
  have al: "filter (\<lambda>a. a_batch a = 1) (allocations after_allocation) \<noteq> []"
    by (simp add: after_allocation_tables)
  have ur: "undo_receive [1] user ?d =
     (Inl (UndoRedoError ''Cannot undo receive: Batch LOT-A has active allocations''), ?d)"
    by (simp add: undo_receive_def atomic_def Batch_get_def tb after_allocation_tables lot_A_def)
  have pu: "perform_undo user 1 ?d = (Inl (AttributeError ''operation_type''), after_allocation)"
    by (rule perform_undo_single) (simp add: after_allocation_tables)
  show ?thesis
    using st al ur pu by (simp add: after_allocation_tables)
qed




















end
